theory Spec2Isabelle
  imports Main "HOL-Library.Sublist"
begin

section \<open>Text\<close>

text \<open>
  The monitor (\<^verbatim>\<open>src/monitor_trades.py\<close>) works on Python strings: sequences of Unicode
  code points. A string of the program is a \<^typ>\<open>nat list\<close>, one number per code point;
  \<open>u\<close> turns an ASCII literal into one. Files hold bytes (\<^typ>\<open>char\<close>).

  The case and category tables of Unicode belong to the Python runtime, not to the
  repository. Every function that depends on them takes them as the parameter \<open>U\<close>, which
  is consulted only beyond ASCII; on ASCII the functions are written out.
  \<open>to_lower\<close> is the lower-case mapping, \<open>is_cased\<close> tells whether a character has another
  case, \<open>is_alnum\<close> whether it is a letter or a digit, and \<open>case_fixes\<close> is the table of
  further characters that the compiler of \<^verbatim>\<open>re\<close> treats as the same letter when case is
  ignored (ASCII has two entries: dotless i for \<^verbatim>\<open>i\<close> and long s for \<^verbatim>\<open>s\<close>).
\<close>

type_synonym ustring = "nat list"

definition u :: "string \<Rightarrow> ustring" where
  "u s = map of_char s"

record unicode =
  to_lower :: "nat \<Rightarrow> nat"
  is_cased :: "nat \<Rightarrow> bool"
  is_alnum :: "nat \<Rightarrow> bool"
  case_fixes :: "nat \<Rightarrow> nat list"

definition tolower :: "unicode \<Rightarrow> nat \<Rightarrow> nat" where
  "tolower U c = (if c < 128 then (if 65 \<le> c \<and> c \<le> 90 then c + 32 else c) else to_lower U c)"

definition iscased :: "unicode \<Rightarrow> nat \<Rightarrow> bool" where
  "iscased U c = (if c < 128 then (65 \<le> c \<and> c \<le> 90) \<or> (97 \<le> c \<and> c \<le> 122) else is_cased U c)"

definition casefix :: "unicode \<Rightarrow> nat \<Rightarrow> nat list" where
  "casefix U lo =
     (if lo = 105 then [305] else if lo = 115 then [383] else if lo < 128 then []
      else case_fixes U lo)"

text \<open>\<^verbatim>\<open>\w\<close> on a string: alphanumeric or the underscore.\<close>

definition is_word :: "unicode \<Rightarrow> nat \<Rightarrow> bool" where
  "is_word U c =
     (if c < 128
      then (48 \<le> c \<and> c \<le> 57) \<or> (65 \<le> c \<and> c \<le> 90) \<or> (97 \<le> c \<and> c \<le> 122) \<or> c = 95
      else is_alnum U c)"

section \<open>The pattern matcher\<close>

text \<open>
  The patterns of the source use a small part of the syntax of \<^verbatim>\<open>re\<close>: literal characters
  (some escaped), \<^verbatim>\<open>.\<close>, \<^verbatim>\<open>\w\<close>, the set \<^verbatim>\<open>[ABC]\<close>, the greedy quantifiers \<^verbatim>\<open>*\<close> and \<^verbatim>\<open>+\<close>
  on a single character class, and groups that are never quantified. A pattern is a
  list of quantified character classes; groups only select what \<^verbatim>\<open>findall\<close> returns and
  do not change what matches.
\<close>

datatype cclass = Lit nat | Dot | Word | Set "nat list"

datatype item = One cclass | Star cclass | Plus cclass

type_synonym regex = "item list"

definition ulit :: "ustring \<Rightarrow> regex" where
  "ulit t = map (One \<circ> Lit) t"

definition lit :: "string \<Rightarrow> regex" where
  "lit t = ulit (u t)"

text \<open>
  A literal \<open>c\<close> of a pattern against the character \<open>x\<close>; \<open>ic\<close> is the flag
  \<^verbatim>\<open>re.IGNORECASE\<close>. With the flag, a literal that has no other case is compared as it
  is; for one that has, the lower case of \<open>x\<close> must be the lower case of \<open>c\<close> or one of
  its entries in the table of fixes.
\<close>

definition lit_accepts :: "unicode \<Rightarrow> bool \<Rightarrow> nat \<Rightarrow> nat \<Rightarrow> bool" where
  "lit_accepts U ic c x =
     (if ic \<and> iscased U c
      then tolower U x \<in> set (tolower U c # casefix U (tolower U c))
      else x = c)"

text \<open>
  \<open>accepts U ic a x\<close>: the class \<open>a\<close> matches the character \<open>x\<close>. Without \<^verbatim>\<open>re.DOTALL\<close>
  the dot matches everything but a line feed.
\<close>

fun accepts :: "unicode \<Rightarrow> bool \<Rightarrow> cclass \<Rightarrow> nat \<Rightarrow> bool" where
  "accepts U ic (Lit c) x = lit_accepts U ic c x"
| "accepts U ic Dot x = (x \<noteq> 10)"
| "accepts U ic Word x = is_word U x"
| "accepts U ic (Set cs) x = list_ex (\<lambda>c. lit_accepts U ic c x) cs"

text \<open>
  \<open>match_here U ic p s\<close> matches \<open>p\<close> at the start of \<open>s\<close> the way a backtracking matcher
  does: a greedy quantifier takes as many characters as it can and gives them back one
  by one while the rest of the pattern fails. The result is the text left after the
  first match found in that order, or \<open>None\<close>.
\<close>

fun match_here :: "unicode \<Rightarrow> bool \<Rightarrow> regex \<Rightarrow> ustring \<Rightarrow> ustring option" where
  "match_here U ic [] s = Some s"
| "match_here U ic (One a # r) [] = None"
| "match_here U ic (One a # r) (x # xs) = (if accepts U ic a x then match_here U ic r xs else None)"
| "match_here U ic (Star a # r) [] = match_here U ic r []"
| "match_here U ic (Star a # r) (x # xs) =
     (if accepts U ic a x
      then (case match_here U ic (Star a # r) xs of
              Some t \<Rightarrow> Some t
            | None \<Rightarrow> match_here U ic r (x # xs))
      else match_here U ic r (x # xs))"
| "match_here U ic (Plus a # r) [] = None"
| "match_here U ic (Plus a # r) (x # xs) =
     (if accepts U ic a x then match_here U ic (Star a # r) xs else None)"

text \<open>\<^verbatim>\<open>re.search(p, s, flags)\<close> as a truth value: some position of \<open>s\<close> starts a match.\<close>

fun re_search :: "unicode \<Rightarrow> bool \<Rightarrow> regex \<Rightarrow> ustring \<Rightarrow> bool" where
  "re_search U ic p [] = (match_here U ic p [] \<noteq> None)"
| "re_search U ic p (c # cs) = (match_here U ic p (c # cs) \<noteq> None \<or> re_search U ic p cs)"

text \<open>
  \<^verbatim>\<open>re.findall(p, s)\<close> without flags: the matches found scanning left to right, each
  search starting where the previous match ended. The list holds the whole text of each
  match; the source uses only the number of matches, the grade that ends a box match
  and the error and warning lines, which are whole matches. After an empty match the
  scan moves on by one character (no pattern of the source matches the empty text).
\<close>

fun findall :: "unicode \<Rightarrow> regex \<Rightarrow> ustring \<Rightarrow> ustring list" where
  "findall U p [] = (case match_here U False p [] of None \<Rightarrow> [] | Some t \<Rightarrow> [[]])"
| "findall U p (c # cs) =
     (case match_here U False p (c # cs) of
        None \<Rightarrow> findall U p cs
      | Some t \<Rightarrow>
          (if length t < length (c # cs)
           then take (length (c # cs) - length t) (c # cs) # findall U p t
           else [] # findall U p cs))"

section \<open>The fatal-condition scan\<close>

text \<open>
  \<^verbatim>\<open>check_for_errors\<close> (lines 43-59). Each entry of \<open>error_patterns\<close> pairs the pattern as
  the source writes it, which is what the method returns, with its parsed form.
\<close>

definition error_patterns :: "(string \<times> regex) list" where
  "error_patterns =
     [(''ECONNREFUSED'', lit ''ECONNREFUSED''),
      (''Cannot connect to.*database'', lit ''Cannot connect to'' @ [Star Dot] @ lit ''database''),
      (''UnhandledPromiseRejectionWarning'', lit ''UnhandledPromiseRejectionWarning''),
      (''TypeError:'', lit ''TypeError:''),
      (''ReferenceError:'', lit ''ReferenceError:''),
      (''Fatal error'', lit ''Fatal error''),
      (''SIGTERM'', lit ''SIGTERM''),
      (''SIGKILL'', lit ''SIGKILL'')]"

text \<open>The \<^verbatim>\<open>for\<close> loop over the patterns, returning at the first one found.\<close>

fun first_match :: "unicode \<Rightarrow> (string \<times> regex) list \<Rightarrow> ustring \<Rightarrow> bool \<times> string option" where
  "first_match U [] content = (False, None)"
| "first_match U (q # qs) content =
     (if re_search U True (snd q) content then (True, Some (fst q)) else first_match U qs content)"

definition check_for_errors :: "unicode \<Rightarrow> ustring \<Rightarrow> bool \<times> string option" where
  "check_for_errors U content = first_match U error_patterns content"

section \<open>Reading the new part of the log\<close>

text \<open>
  What \<^verbatim>\<open>open(LOG_FILE, 'r', ...)\<close> and the calls on the file object meet in one cycle:
  the open fails (file missing, permission denied), the open succeeds and the seek or
  the read fails, or the file is read, and then it holds the given bytes.
\<close>

datatype log_file = OpenError | ReadError | Content string

text \<open>
  The file is opened with \<^verbatim>\<open>encoding='utf-8', errors='ignore'\<close>. \<open>utf8_ignore\<close> is the
  decoder on the values of the bytes: a byte that cannot start a character is dropped;
  when a byte that should continue a character does not, the bytes of the character
  before it are dropped and decoding goes on at that byte; a character cut off by the
  end of the data is dropped. Over-long forms, surrogates and values beyond
  \<^verbatim>\<open>U+10FFFF\<close> are not characters.
\<close>

definition cont :: "nat \<Rightarrow> bool" where
  "cont b = (128 \<le> b \<and> b < 192)"

fun utf8_ignore :: "nat list \<Rightarrow> ustring" where
  "utf8_ignore [] = []"
| "utf8_ignore (b # bs) =
     (if b < 128 then b # utf8_ignore bs
      else if b < 194 then utf8_ignore bs
      else if b < 224 then
        (case bs of
           [] \<Rightarrow> []
         | b2 # r \<Rightarrow>
             if cont b2 then ((b - 192) * 64 + (b2 - 128)) # utf8_ignore r
             else utf8_ignore bs)
      else if b < 240 then
        (case bs of
           [] \<Rightarrow> []
         | b2 # r \<Rightarrow>
             if \<not> cont b2 \<or> (if b2 < 160 then b = 224 else b = 237) then utf8_ignore bs
             else (case r of
                     [] \<Rightarrow> []
                   | b3 # r' \<Rightarrow>
                       if cont b3
                       then ((b - 224) * 4096 + (b2 - 128) * 64 + (b3 - 128)) # utf8_ignore r'
                       else utf8_ignore r))
      else if b < 245 then
        (case bs of
           [] \<Rightarrow> []
         | b2 # r \<Rightarrow>
             if \<not> cont b2 \<or> (if b2 < 144 then b = 240 else b = 244) then utf8_ignore bs
             else (case r of
                     [] \<Rightarrow> []
                   | b3 # r' \<Rightarrow>
                       if \<not> cont b3 then utf8_ignore r
                       else (case r' of
                               [] \<Rightarrow> []
                             | b4 # r'' \<Rightarrow>
                                 if cont b4
                                 then ((b - 240) * 262144 + (b2 - 128) * 4096
                                       + (b3 - 128) * 64 + (b4 - 128)) # utf8_ignore r''
                                 else utf8_ignore r')))
      else utf8_ignore bs)"

text \<open>
  Text mode with the default \<^verbatim>\<open>newline=None\<close>: a carriage return followed by a line
  feed, and a carriage return alone, are read as one line feed.
\<close>

fun universal_newlines :: "ustring \<Rightarrow> ustring" where
  "universal_newlines [] = []"
| "universal_newlines [c] = [if c = 13 then 10 else c]"
| "universal_newlines (c # d # r) =
     (if c = 13
      then (if d = 10 then 10 # universal_newlines r else 10 # universal_newlines (d # r))
      else c # universal_newlines (d # r))"

definition decode :: "string \<Rightarrow> ustring" where
  "decode b = universal_newlines (utf8_ignore (map of_char b))"

text \<open>
  An open file: its bytes and the position of the next read. \<^verbatim>\<open>seek\<close> sets the position,
  also beyond the end; \<^verbatim>\<open>read()\<close> returns the text of everything from the position to
  the end and leaves the position at the end, or where it was when that is beyond the
  end; \<^verbatim>\<open>tell\<close> returns the position, a number of bytes.
\<close>

record handle =
  bytes :: string
  pos :: nat

definition f_seek :: "handle \<Rightarrow> nat \<Rightarrow> handle" where
  "f_seek f n = f\<lparr>pos := n\<rparr>"

definition f_read :: "handle \<Rightarrow> ustring \<times> handle" where
  "f_read f = (decode (drop (pos f) (bytes f)), f\<lparr>pos := max (pos f) (length (bytes f))\<rparr>)"

definition f_tell :: "handle \<Rightarrow> nat" where
  "f_tell f = pos f"

section \<open>The statistics of one window\<close>

text \<open>
  The nested dictionaries of \<^verbatim>\<open>analyze_logs\<close> as records. A \<^verbatim>\<open>defaultdict(int)\<close> and a
  \<^verbatim>\<open>Counter\<close> are association lists in insertion order, which is the order the report
  lists them in. Where two dictionaries of the source use the same key, the fields
  carry a prefix.
\<close>

record outcome =
  analyzed :: nat
  detected :: nat
  failed_filters :: "(string \<times> nat) list"

record funding_outcome = outcome +
  extreme_zscore_bypass :: nat

record cycle_rider_stats =
  cr_total_scans :: nat
  distribution :: outcome
  squeeze :: outcome
  cr_signals_generated :: nat

record hour_swing_stats =
  hs_total_scans :: nat
  mtf_alignment :: outcome
  relative_strength :: outcome
  funding_extremes :: funding_outcome
  hs_signals_generated :: nat

record entry_stats =
  ea_analyzed :: nat
  ea_generated :: nat

record box_range_stats =
  br_total_scans :: nat
  boxes_detected :: nat
  box_grades :: "(nat \<times> nat) list"
  entry_analysis :: entry_stats
  br_failed_filters :: "(string \<times> nat) list"
  br_signals_generated :: nat

record order_stats =
  orders_placed :: nat
  orders_filled :: nat
  orders_cancelled :: nat
  positions_opened :: nat
  positions_closed :: nat

record error_stats =
  error_count :: nat
  warning_count :: nat
  errors_sample :: "ustring list"
  warnings_sample :: "ustring list"

record snapshot =
  timestamp :: ustring
  cycle_rider :: cycle_rider_stats
  hour_swing :: hour_swing_stats
  box_range :: box_range_stats
  orders :: order_stats
  errors :: error_stats

text \<open>\<^verbatim>\<open>d[k] = v\<close> on a dictionary kept in insertion order.\<close>

fun dict_set :: "('k \<times> 'v) list \<Rightarrow> 'k \<Rightarrow> 'v \<Rightarrow> ('k \<times> 'v) list" where
  "dict_set [] k v = [(k, v)]"
| "dict_set (e # d) k v = (if fst e = k then (k, v) # d else e # dict_set d k v)"

text \<open>
  The loop that every strategy runs over its list of (pattern, name) pairs:
  \<^verbatim>\<open>count = len(re.findall(pattern, content)); if count > 0: failed_filters[name] = count\<close>.
\<close>

fun record_failures ::
  "unicode \<Rightarrow> (regex \<times> string) list \<Rightarrow> ustring \<Rightarrow> (string \<times> nat) list \<Rightarrow> (string \<times> nat) list" where
  "record_failures U [] content d = d"
| "record_failures U (q # qs) content d =
     (let count = length (findall U (fst q) content)
      in record_failures U qs content (if count > 0 then dict_set d (snd q) count else d))"

text \<open>The pictographs of the patterns, each one code point.\<close>

definition sym_target :: ustring where
  "sym_target = [0x1F3AF]"

definition sym_check :: ustring where
  "sym_check = [0x2705]"

definition sym_rocket :: ustring where
  "sym_rocket = [0x1F680]"

definition sym_collision :: ustring where
  "sym_collision = [0x1F4A5]"

definition sym_fire :: ustring where
  "sym_fire = [0x1F525]"

text \<open>\<^verbatim>\<open>\[Tag\] (\w+) rest\<close>: the shape of most event patterns.\<close>

definition tagged :: "string \<Rightarrow> ustring \<Rightarrow> regex" where
  "tagged tag rest = lit (''['' @ tag @ ''] '') @ [Plus Word] @ ulit (u '' '' @ rest)"

subsection \<open>Cycle Rider (lines 73-119)\<close>

definition distribution_filters :: "(regex \<times> string) list" where
  "distribution_filters =
     [(lit ''Not in distribution (price not near POC)'', ''Not near POC''),
      (lit ''Volume spike too strong'', ''Volume spike''),
      (lit ''CVD slope too negative'', ''CVD negative''),
      (lit ''No accumulation pattern'', ''No accumulation'')]"

definition squeeze_filters :: "(regex \<times> string) list" where
  "squeeze_filters =
     [(lit ''Not in squeeze'', ''Not in squeeze''),
      (lit ''No momentum divergence'', ''No divergence''),
      (lit ''Histogram not bullish'', ''Histogram not bullish'')]"

definition analyze_cycle_rider :: "unicode \<Rightarrow> ustring \<Rightarrow> cycle_rider_stats" where
  "analyze_cycle_rider U content =
     (let dist_analyzed = findall U (tagged ''Distribution'' (u ''Starting analysis'')) content;
          dist_detected = findall U (tagged ''Distribution'' (sym_target @ u '' Distribution zone detected'')) content;
          dist_failed = record_failures U distribution_filters content [];
          squeeze_analyzed = findall U (tagged ''SqueezeMomentum'' (u ''Starting analysis'')) content;
          squeeze_detected = findall U (tagged ''SqueezeMomentum'' (sym_check @ u '' Squeeze detected'')) content;
          squeeze_failed = record_failures U squeeze_filters content [];
          signals = findall U (tagged ''CycleRider'' (sym_rocket @ u '' Cycle Rider signal'')) content
      in \<lparr>cr_total_scans = 0,
          distribution = \<lparr>analyzed = length dist_analyzed, detected = length dist_detected,
                          failed_filters = dist_failed\<rparr>,
          squeeze = \<lparr>analyzed = length squeeze_analyzed, detected = length squeeze_detected,
                     failed_filters = squeeze_failed\<rparr>,
          cr_signals_generated = length signals\<rparr>)"

subsection \<open>Hour Swing (lines 121-185)\<close>

definition mtf_filters :: "(regex \<times> string) list" where
  "mtf_filters =
     [(lit ''1H analysis: valid=false'', ''1H trend invalid''),
      (lit ''15M analysis: aligned=false'', ''15M not aligned''),
      (lit ''strength=0.00'', ''Trend too weak'')]"

definition rs_filters :: "(regex \<times> string) list" where
  "rs_filters =
     [(lit ''BTC bearish cross detected'', ''BTC bearish''),
      (lit ''BTC bullish cross detected'', ''BTC bullish''),
      (lit ''Altcoin weaker than BTC'', ''Weaker than BTC'')]"

definition fe_filters :: "(regex \<times> string) list" where
  "fe_filters =
     [(lit ''Market structure break: broken=false'', ''Structure not broken''),
      (lit ''Momentum slowing: false'', ''Momentum not slowing''),
      (lit ''isExtreme=false'', ''Funding not extreme'')]"

definition analyze_hour_swing :: "unicode \<Rightarrow> ustring \<Rightarrow> hour_swing_stats" where
  "analyze_hour_swing U content =
     (let mtf_analyzed = findall U (tagged ''MTF Alignment'' (u ''Checking alignment'')) content;
          mtf_detected = findall U (lit ''[MTF Alignment] '' @ [Plus Word] @ ulit (u '' '' @ sym_check)
                                    @ [Star Dot] @ lit ''aligned'') content;
          mtf_failed = record_failures U mtf_filters content [];
          rs_analyzed = findall U (tagged ''RelativeStrength'' (u ''Checking relative strength'')) content;
          rs_detected = findall U (tagged ''RelativeStrength'' (sym_check @ u '' Relative strength confirmed'')) content;
          rs_failed = record_failures U rs_filters content [];
          fe_analyzed = findall U (tagged ''FundingExtremes'' (u ''Starting analysis'')) content;
          fe_detected = findall U (tagged ''FundingExtremes'' (sym_collision @ u '' Extreme funding detected'')) content;
          fe_extreme_bypass = findall U (tagged ''FundingExtremes'' (sym_fire @ u '' EXTREME zScore detected'')) content;
          fe_failed = record_failures U fe_filters content [];
          signals = findall U (lit ''[HourSwing] '' @ [Plus Word] @ ulit (u '' '' @ sym_target)
                               @ [Star Dot] @ lit ''signal generated'') content
      in \<lparr>hs_total_scans = 0,
          mtf_alignment = \<lparr>analyzed = length mtf_analyzed, detected = length mtf_detected,
                           failed_filters = mtf_failed\<rparr>,
          relative_strength = \<lparr>analyzed = length rs_analyzed, detected = length rs_detected,
                               failed_filters = rs_failed\<rparr>,
          funding_extremes = \<lparr>analyzed = length fe_analyzed, detected = length fe_detected,
                              failed_filters = fe_failed,
                              extreme_zscore_bypass = length fe_extreme_bypass\<rparr>,
          hs_signals_generated = length signals\<rparr>)"

subsection \<open>Box Range (lines 187-226)\<close>

definition box_filters :: "(regex \<times> string) list" where
  "box_filters =
     [(lit ''Failed ATR filter'', ''ATR out of range''),
      (lit ''1H ADX too high'', ''ADX too high''),
      (lit ''Failed upper timeframe filter'', ''Upper TF failed''),
      (lit ''Box invalidated by price breakout'', ''Box breakout''),
      (lit ''Symbol disabled'', ''Symbol disabled'')]"

text \<open>\<^verbatim>\<open>box_grades[grade] += 1\<close> on a \<^verbatim>\<open>Counter\<close>.\<close>

definition counter_add :: "('k \<times> nat) list \<Rightarrow> 'k \<Rightarrow> ('k \<times> nat) list" where
  "counter_add d k = dict_set d k ((case map_of d k of None \<Rightarrow> 0 | Some n \<Rightarrow> n) + 1)"

text \<open>
  The box pattern ends with the group \<^verbatim>\<open>([ABC])\<close>, so the grade of a match is the last
  character of its text.
\<close>

definition analyze_box_range :: "unicode \<Rightarrow> ustring \<Rightarrow> box_range_stats" where
  "analyze_box_range U content =
     (let boxes = findall U (lit ''[BoxDetector] '' @ [Plus Word]
                             @ ulit (u '' '' @ sym_check @ u '' Box detected! Grade='')
                             @ [One (Set (u ''ABC''))]) content;
          grades = fold (\<lambda>m d. counter_add d (last m)) boxes [];
          entry_analyzed = findall U (tagged ''BoxRangeSignal'' (u ''Starting box range analysis'')) content;
          entry_generated = findall U (tagged ''BoxRangeSignal'' (sym_target @ u '' Box Range signal generated'')) content;
          failed = record_failures U box_filters content [];
          signals = findall U (tagged ''BoxRangeSignal'' (sym_target @ u '' Box Range signal generated'')) content
      in \<lparr>br_total_scans = 0,
          boxes_detected = length boxes,
          box_grades = grades,
          entry_analysis = \<lparr>ea_analyzed = length entry_analyzed, ea_generated = length entry_generated\<rparr>,
          br_failed_filters = failed,
          br_signals_generated = length signals\<rparr>)"

subsection \<open>Orders and errors (lines 228-264)\<close>

text \<open>\<^verbatim>\<open>Event.*(\w+USDT)\<close>\<close>

definition usdt_event :: "string \<Rightarrow> regex" where
  "usdt_event event = lit event @ [Star Dot, Plus Word] @ lit ''USDT''"

definition analyze_orders :: "unicode \<Rightarrow> ustring \<Rightarrow> order_stats" where
  "analyze_orders U content =
     \<lparr>orders_placed = length (findall U (usdt_event ''Order placed'') content),
      orders_filled = length (findall U (usdt_event ''Order filled'') content),
      orders_cancelled = length (findall U (usdt_event ''Order cancelled'') content),
      positions_opened = length (findall U (usdt_event ''Position opened'') content),
      positions_closed = length (findall U (usdt_event ''Position closed'') content)\<rparr>"

definition analyze_errors :: "unicode \<Rightarrow> ustring \<Rightarrow> error_stats" where
  "analyze_errors U content =
     (let error_lines = findall U (lit ''[31merror[39m'' @ [Star Dot]) content;
          warn_lines = findall U (lit ''[33mwarn[39m'' @ [Star Dot]) content
      in \<lparr>error_count = length error_lines,
          warning_count = length warn_lines,
          errors_sample = (if error_lines \<noteq> [] then take 10 error_lines else []),
          warnings_sample = (if warn_lines \<noteq> [] then take 10 warn_lines else [])\<rparr>)"

text \<open>
  \<^verbatim>\<open>analyze_logs\<close> (lines 61-71). \<open>now\<close> is what \<^verbatim>\<open>datetime.now().strftime(...)\<close> returns
  when the statistics are taken.
\<close>

definition analyze_logs :: "unicode \<Rightarrow> ustring \<Rightarrow> ustring \<Rightarrow> snapshot" where
  "analyze_logs U now content =
     \<lparr>timestamp = now,
      cycle_rider = analyze_cycle_rider U content,
      hour_swing = analyze_hour_swing U content,
      box_range = analyze_box_range U content,
      orders = analyze_orders U content,
      errors = analyze_errors U content\<rparr>"

section \<open>The report\<close>

text \<open>\<^verbatim>\<open>str(n)\<close> for a count, a line feed, and the pictographs of the report's titles.\<close>

fun str_nat :: "nat \<Rightarrow> ustring" where
  "str_nat n = (if n < 10 then [48 + n] else str_nat (n div 10) @ [48 + n mod 10])"

definition nl :: ustring where
  "nl = [10]"

definition sym_cycle :: ustring where
  "sym_cycle = [0x1F504]"

definition sym_clock :: ustring where
  "sym_clock = [0x23F0]"

definition sym_box :: ustring where
  "sym_box = [0x1F4E6]"

definition sym_chart :: ustring where
  "sym_chart = [0x1F4CA]"

definition sym_warning :: ustring where
  "sym_warning = [0x26A0, 0xFE0F]"

definition fence :: ustring where
  "fence = u [CHR 0x60, CHR 0x60, CHR 0x60]"

text \<open>
  The clock: what \<^verbatim>\<open>datetime.now()\<close> returns, and
  \<^verbatim>\<open>strftime('%Y-%m-%d %H:%M:%S')\<close>, which pads each field with zeros (four digits
  for the year, two for the others).
\<close>

record datetime =
  year :: nat
  month :: nat
  day :: nat
  hour :: nat
  minute :: nat
  second :: nat

definition pad :: "nat \<Rightarrow> nat \<Rightarrow> ustring" where
  "pad k n = replicate (k - length (str_nat n)) 48 @ str_nat n"

definition strftime :: "datetime \<Rightarrow> ustring" where
  "strftime d =
     pad 4 (year d) @ u ''-'' @ pad 2 (month d) @ u ''-'' @ pad 2 (day d) @ u '' ''
     @ pad 2 (hour d) @ u '':'' @ pad 2 (minute d) @ u '':'' @ pad 2 (second d)"

text \<open>The header block (lines 272-275); \<open>now\<close> is the formatted time of the write.\<close>

definition title_line :: ustring where
  "title_line = u ''# Trading Strategy Monitor Report''"

definition header_text :: "ustring \<Rightarrow> ustring" where
  "header_text now =
     title_line @ nl @ nl
     @ u ''Started: '' @ now @ nl @ nl
     @ u ''---'' @ nl @ nl"

text \<open>\<^verbatim>\<open>if failed_filters: ... for name, count in failed_filters.items(): ...\<close>\<close>

definition failed_text :: "(string \<times> nat) list \<Rightarrow> ustring" where
  "failed_text ff =
     (if ff \<noteq> []
      then u ''  - Failed filters:'' @ nl
           @ concat (map (\<lambda>(name, count). u ''    - '' @ u name @ u '': '' @ str_nat count @ nl) ff)
      else [])"

definition ratio_text :: "nat \<Rightarrow> nat \<Rightarrow> ustring" where
  "ratio_text d a = str_nat d @ u ''/'' @ str_nat a"

definition cycle_rider_text :: "cycle_rider_stats \<Rightarrow> ustring" where
  "cycle_rider_text cr =
     u ''### '' @ sym_cycle @ u '' Cycle Rider Strategy'' @ nl @ nl
     @ u ''- **Distribution**: '' @ ratio_text (detected (distribution cr)) (analyzed (distribution cr))
       @ u '' detected'' @ nl
     @ failed_text (failed_filters (distribution cr))
     @ u ''- **Squeeze Momentum**: '' @ ratio_text (detected (squeeze cr)) (analyzed (squeeze cr))
       @ u '' detected'' @ nl
     @ failed_text (failed_filters (squeeze cr))
     @ u ''- **Signals Generated**: '' @ str_nat (cr_signals_generated cr) @ nl @ nl"

definition hour_swing_text :: "hour_swing_stats \<Rightarrow> ustring" where
  "hour_swing_text hs =
     u ''### '' @ sym_clock @ u '' Hour Swing Strategy'' @ nl @ nl
     @ u ''- **MTF Alignment**: ''
       @ ratio_text (detected (mtf_alignment hs)) (analyzed (mtf_alignment hs))
       @ u '' aligned'' @ nl
     @ failed_text (failed_filters (mtf_alignment hs))
     @ u ''- **Relative Strength**: ''
       @ ratio_text (detected (relative_strength hs)) (analyzed (relative_strength hs))
       @ u '' confirmed'' @ nl
     @ failed_text (failed_filters (relative_strength hs))
     @ u ''- **Funding Extremes**: ''
       @ ratio_text (detected (funding_extremes hs)) (analyzed (funding_extremes hs))
       @ u '' extreme detected'' @ nl
     @ u ''  - '' @ sym_fire @ u '' Extreme zScore bypass: ''
       @ str_nat (extreme_zscore_bypass (funding_extremes hs)) @ nl
     @ failed_text (failed_filters (funding_extremes hs))
     @ u ''- **Signals Generated**: '' @ str_nat (hs_signals_generated hs) @ nl @ nl"

text \<open>\<^verbatim>\<open>sorted(box_grades.items())\<close>: the grades are distinct keys, so the order is theirs.\<close>

definition grades_text :: "(nat \<times> nat) list \<Rightarrow> ustring" where
  "grades_text gs =
     (if gs \<noteq> []
      then u ''  - Grades:'' @ nl
           @ concat (map (\<lambda>(grade, count). u ''    - Grade '' @ [grade] @ u '': '' @ str_nat count @ nl)
                         (sort_key fst gs))
      else [])"

definition box_range_text :: "box_range_stats \<Rightarrow> ustring" where
  "box_range_text br =
     u ''### '' @ sym_box @ u '' Box Range Strategy'' @ nl @ nl
     @ u ''- **Boxes Detected**: '' @ str_nat (boxes_detected br) @ nl
     @ grades_text (box_grades br)
     @ u ''- **Entry Analysis**: ''
       @ ratio_text (ea_generated (entry_analysis br)) (ea_analyzed (entry_analysis br))
       @ u '' signals'' @ nl
     @ failed_text (br_failed_filters br)
     @ u ''- **Signals Generated**: '' @ str_nat (br_signals_generated br) @ nl @ nl"

text \<open>The trading-activity block (lines 333-338).\<close>

definition trading_activity_text :: "order_stats \<Rightarrow> ustring" where
  "trading_activity_text os =
     u ''### '' @ sym_chart @ u '' Trading Activity'' @ nl @ nl
     @ u ''- Orders Placed: '' @ str_nat (orders_placed os) @ nl
     @ u ''- Orders Filled: '' @ str_nat (orders_filled os) @ nl
     @ u ''- Positions Opened: '' @ str_nat (positions_opened os) @ nl
     @ u ''- Positions Closed: '' @ str_nat (positions_closed os) @ nl @ nl"

definition errors_text :: "error_stats \<Rightarrow> ustring" where
  "errors_text errs =
     (if error_count errs > 0 \<or> warning_count errs > 0
      then u ''### '' @ sym_warning @ u '' Errors & Warnings'' @ nl @ nl
           @ u ''- Errors: '' @ str_nat (error_count errs) @ nl
           @ u ''- Warnings: '' @ str_nat (warning_count errs) @ nl
           @ (if errors_sample errs \<noteq> []
              then nl @ u ''Recent errors:'' @ nl
                   @ concat (map (\<lambda>err. fence @ nl @ err @ nl @ fence @ nl) (take 5 (errors_sample errs)))
              else [])
           @ nl
      else [])"

text \<open>One section (lines 279-352); \<open>n\<close> is the scan number \<^verbatim>\<open>self.iteration + 1\<close>.\<close>

definition section_text :: "nat \<Rightarrow> snapshot \<Rightarrow> ustring" where
  "section_text n stats =
     u ''## Scan #'' @ str_nat n @ u '' - '' @ timestamp stats @ nl @ nl
     @ cycle_rider_text (cycle_rider stats)
     @ hour_swing_text (hour_swing stats)
     @ box_range_text (box_range stats)
     @ trading_activity_text (orders stats)
     @ errors_text (errors stats)
     @ u ''---'' @ nl @ nl"

text \<open>
  The report file is the list of the blocks written to it, in order: the header block
  with its start time, and one section per scan. Its text is what the blocks spell.
\<close>

datatype piece = Header ustring | Section nat snapshot

fun piece_text :: "piece \<Rightarrow> ustring" where
  "piece_text (Header now) = header_text now"
| "piece_text (Section n stats) = section_text n stats"

definition report_text :: "piece list \<Rightarrow> ustring" where
  "report_text ps = concat (map piece_text ps)"

fun is_header :: "piece \<Rightarrow> bool" where
  "is_header (Header now) = True"
| "is_header (Section n stats) = False"

text \<open>
  The lines of a text, and how often the first line of the header block, the title, is
  among them.
\<close>

fun lines_of :: "ustring \<Rightarrow> ustring list" where
  "lines_of [] = []"
| "lines_of (c # cs) =
     (if c = 10 then [] # lines_of cs
      else (case lines_of cs of [] \<Rightarrow> [[c]] | l # ls \<Rightarrow> (c # l) # ls))"

definition header_count :: "ustring \<Rightarrow> nat" where
  "header_count txt = length (filter (\<lambda>l. l = title_line) (lines_of txt))"

section \<open>The monitor and its surroundings\<close>

text \<open>
  What the loop of \<^verbatim>\<open>run\<close> does, in the order it happens: the calls of the monitor's own
  methods, the two calls of \<^verbatim>\<open>subprocess.run\<close> in \<^verbatim>\<open>stop_server\<close>
  (\<^verbatim>\<open>pkill -f node.*dual-strategy\<close>, which ends the server, and \<^verbatim>\<open>lsof -ti:3031\<close>, whose
  result is dropped), and the wait between cycles. Console output is left out.
\<close>

datatype event = ReadNewLogs | CheckForErrors | AnalyzeLogs | WriteReport | Pkill | Lsof | Sleep

text \<open>
  The state: the two fields of \<^verbatim>\<open>TradeMonitor\<close> (\<open>last_position\<close>, \<open>iteration\<close>), the
  report file (\<open>None\<close> when it does not exist) and the events so far.
\<close>

record world =
  last_position :: nat
  iteration :: nat
  report :: "piece list option"
  events :: "event list"

text \<open>\<^verbatim>\<open>__init__\<close> (lines 20-22), with the report file as the monitor finds it.\<close>

definition startup :: "piece list option \<Rightarrow> world" where
  "startup r = \<lparr>last_position = 0, iteration = 0, report = r, events = []\<rparr>"

text \<open>
  What one cycle meets outside the monitor: the log file, the clock at the two places
  that read it, whether the report file was deleted since the last cycle, whether
  opening the report for writing (\<^verbatim>\<open>'w'\<close>) or for appending (\<^verbatim>\<open>'a'\<close>) fails, whether the
  user interrupts the wait, and whether the programs \<^verbatim>\<open>pkill\<close> and \<^verbatim>\<open>lsof\<close> can be
  started. A write that fails after part of its text reached the file and an interrupt
  outside the wait are not modelled.
\<close>

datatype write_fault = NoFault | CreateFails | AppendFails

record env =
  logfile :: log_file
  now_stats :: datetime
  now_header :: datetime
  report_deleted :: bool
  fault :: write_fault
  interrupt :: bool
  pkill_starts :: bool
  lsof_starts :: bool

definition emit :: "event \<Rightarrow> world \<Rightarrow> world" where
  "emit ev self = self\<lparr>events := events self @ [ev]\<rparr>"

text \<open>
  \<^verbatim>\<open>stop_server\<close> (lines 24-29). With \<^verbatim>\<open>check=False\<close> the exit status of a subprocess
  raises nothing, but \<^verbatim>\<open>subprocess.run\<close> raises when the program cannot be started. The
  result says whether the method returned (\<open>True\<close>) or raised.
\<close>

definition stop_server :: "env \<Rightarrow> world \<Rightarrow> bool \<times> world" where
  "stop_server e self =
     (if \<not> pkill_starts e then (False, emit Pkill self)
      else if \<not> lsof_starts e then (False, emit Lsof (emit Pkill self))
      else (True, emit Lsof (emit Pkill self)))"

text \<open>
  \<^verbatim>\<open>read_new_logs\<close> (lines 31-41). Any exception of the \<^verbatim>\<open>try\<close> block ends in the
  handler, which returns the empty string; the assignment to \<open>last_position\<close> comes
  after the read.
\<close>

definition read_new_logs :: "log_file \<Rightarrow> world \<Rightarrow> ustring \<times> world" where
  "read_new_logs lf self =
     (case lf of
        OpenError \<Rightarrow> ([], self)
      | ReadError \<Rightarrow> ([], self)
      | Content b \<Rightarrow>
          (let f = f_seek \<lparr>bytes = b, pos = 0\<rparr> (last_position self);
               r = f_read f
           in (fst r, self\<lparr>last_position := f_tell (snd r)\<rparr>)))"

text \<open>
  \<^verbatim>\<open>write_report\<close> (lines 266-357). Mode \<^verbatim>\<open>'w'\<close> empties the file before the header is
  written; mode \<^verbatim>\<open>'a'\<close> creates a missing file. An exception at either open is caught by
  the handler of the method, which returns normally.
\<close>

definition append_section :: "write_fault \<Rightarrow> snapshot \<Rightarrow> world \<Rightarrow> world" where
  "append_section flt stats self =
     (if flt = AppendFails then self
      else self\<lparr>report := Some ((case report self of None \<Rightarrow> [] | Some ps \<Rightarrow> ps)
                                  @ [Section (iteration self + 1) stats])\<rparr>)"

definition write_report :: "write_fault \<Rightarrow> ustring \<Rightarrow> snapshot \<Rightarrow> world \<Rightarrow> world" where
  "write_report flt now stats self =
     (if iteration self = 0 \<or> report self = None
      then (if flt = CreateFails then self
            else append_section flt stats (self\<lparr>report := Some [Header now]\<rparr>))
      else append_section flt stats self)"

text \<open>
  One pass through the body of \<^verbatim>\<open>while True\<close> (lines 366-398), and how the loop stands
  after it. \<^verbatim>\<open>time.sleep\<close> is where a \<^verbatim>\<open>KeyboardInterrupt\<close> arrives. The reads and the
  writes handle their own exceptions, so the only step of the body that can raise is
  \<^verbatim>\<open>stop_server\<close>. Then the handler for unexpected exceptions (lines 395-398) calls
  \<^verbatim>\<open>stop_server\<close> again, outside any \<^verbatim>\<open>try\<close>: when that call returns the loop ends, and
  when it raises too the exception leaves \<^verbatim>\<open>run\<close>.
\<close>

datatype status =
  Running | StoppedOnError "string option" | StoppedOnException | StoppedByUser | Crashed

definition sleep :: "bool \<Rightarrow> world \<Rightarrow> status \<times> world" where
  "sleep interrupted self = (if interrupted then StoppedByUser else Running, emit Sleep self)"

definition stop_on_error :: "env \<Rightarrow> string option \<Rightarrow> world \<Rightarrow> status \<times> world" where
  "stop_on_error e error_pattern self =
     (let first = stop_server e self
      in if fst first then (StoppedOnError error_pattern, snd first)
         else (let again = stop_server e (snd first)
               in if fst again then (StoppedOnException, snd again) else (Crashed, snd again)))"

definition cycle :: "unicode \<Rightarrow> env \<Rightarrow> world \<Rightarrow> status \<times> world" where
  "cycle U e w =
     (let w0 = (if report_deleted e then w\<lparr>report := None\<rparr> else w);
          r = read_new_logs (logfile e) (emit ReadNewLogs w0);
          content = fst r;
          w1 = emit CheckForErrors (snd r)
      in if content \<noteq> []
         then (if fst (check_for_errors U content)
               then stop_on_error e (snd (check_for_errors U content)) w1
               else (let stats = analyze_logs U (strftime (now_stats e)) content;
                         w2 = write_report (fault e) (strftime (now_header e)) stats
                                (emit WriteReport (emit AnalyzeLogs w1));
                         w3 = w2\<lparr>iteration := iteration w2 + 1\<rparr>
                     in sleep (interrupt e) w3))
         else sleep (interrupt e) (snd r))"

text \<open>
  The loop, over what the cycles meet one after the other. It goes on while the cycle
  leaves it running; when the list runs out the monitor is still running.
\<close>

fun run :: "unicode \<Rightarrow> env list \<Rightarrow> world \<Rightarrow> status \<times> world" where
  "run U [] w = (Running, w)"
| "run U (e # es) w =
     (if fst (cycle U e w) = Running then run U es (snd (cycle U e w)) else cycle U e w)"

text \<open>
  The window of a cycle is the text its call of \<^verbatim>\<open>read_new_logs\<close> returns, and the new
  events of a cycle are those it adds.
\<close>

definition window :: "env \<Rightarrow> world \<Rightarrow> ustring" where
  "window e w = fst (read_new_logs (logfile e) w)"

definition new_events :: "unicode \<Rightarrow> env \<Rightarrow> world \<Rightarrow> event list" where
  "new_events U e w = drop (length (events w)) (events (snd (cycle U e w)))"

text \<open>The state in which a cycle calls the fatal scan: after the read of the log.\<close>

definition after_read :: "env \<Rightarrow> world \<Rightarrow> world" where
  "after_read e w =
     snd (read_new_logs (logfile e)
            (emit ReadNewLogs (if report_deleted e then w\<lparr>report := None\<rparr> else w)))"

text \<open>
  A cycle in which nothing happens outside the monitor but the log being what it is: the
  report is not deleted, the writes succeed, nobody interrupts, the programs start.
\<close>

definition noon :: datetime where
  "noon = \<lparr>year = 2025, month = 1, day = 1, hour = 12, minute = 0, second = 0\<rparr>"

definition quiet :: "log_file \<Rightarrow> env" where
  "quiet lf =
     \<lparr>logfile = lf, now_stats = noon, now_header = noon,
      report_deleted = False, fault = NoFault, interrupt = False,
      pkill_starts = True, lsof_starts = True\<rparr>"

text \<open>
  A table for the examples: beyond ASCII it knows the Kelvin sign and the dotted
  capital I, whose lower cases are \<^verbatim>\<open>k\<close> and \<^verbatim>\<open>i\<close>, and nothing else.
\<close>

definition small_table :: unicode where
  "small_table =
     \<lparr>to_lower = (\<lambda>c. if c = 0x212A then 107 else if c = 0x130 then 105 else c),
      is_cased = (\<lambda>c. c = 0x212A \<or> c = 0x130 \<or> c = 0x131 \<or> c = 0x17F),
      is_alnum = (\<lambda>c. c = 0x212A \<or> c = 0x130 \<or> c = 0x131 \<or> c = 0x17F),
      case_fixes = (\<lambda>c. if c = 0x131 then [105] else if c = 0x17F then [115] else [])\<rparr>"

text \<open>
  For the failure filters: the text a literal pattern stands for, the number of places
  of a window where a text occurs, and windows in which no occurrence of the text
  starts inside another one. \<open>failure_tables\<close> pairs each (pattern, name) list of the
  source with the failure dictionary its strategy builds from a window.
\<close>

definition trigger :: "regex \<Rightarrow> ustring" where
  "trigger p = concat (map (\<lambda>i. case i of One (Lit c) \<Rightarrow> [c] | _ \<Rightarrow> []) p)"

definition occurrences :: "ustring \<Rightarrow> ustring \<Rightarrow> nat" where
  "occurrences t w = length (filter (prefix t) (suffixes w))"

definition apart :: "ustring \<Rightarrow> ustring \<Rightarrow> bool" where
  "apart t w =
     list_all (\<lambda>s. \<not> prefix t s \<or> list_all (\<lambda>k. \<not> prefix t (drop k s)) [1..<length t])
       (suffixes w)"

definition failure_tables ::
  "unicode \<Rightarrow> ustring \<Rightarrow> ((regex \<times> string) list \<times> (string \<times> nat) list) list" where
  "failure_tables U content =
     [(distribution_filters, failed_filters (distribution (analyze_cycle_rider U content))),
      (squeeze_filters, failed_filters (squeeze (analyze_cycle_rider U content))),
      (mtf_filters, failed_filters (mtf_alignment (analyze_hour_swing U content))),
      (rs_filters, failed_filters (relative_strength (analyze_hour_swing U content))),
      (fe_filters, failed_filters (funding_extremes (analyze_hour_swing U content))),
      (box_filters, br_failed_filters (analyze_box_range U content))]"

text \<open>
  Lower case on ASCII, for speaking of the spellings of a pattern: \<open>v\<close> is a case variant
  of \<open>t\<close> when the two differ at most in the case of ASCII letters.
\<close>

definition ascii_lower :: "nat \<Rightarrow> nat" where
  "ascii_lower c = (if 65 \<le> c \<and> c \<le> 90 then c + 32 else c)"

definition case_variant :: "ustring \<Rightarrow> ustring \<Rightarrow> bool" where
  "case_variant v t = (map ascii_lower v = map ascii_lower t)"

section \<open>Properties of the matcher\<close>

lemma ulit_simps: "ulit [] = []" "ulit (c # t) = One (Lit c) # ulit t"
  by (simp_all add: ulit_def)

lemma u_simps: "u [] = []" "u (c # cs) = of_char c # u cs"
  by (simp_all add: u_def)

lemmas char_eval = lit_accepts_def iscased_def tolower_def casefix_def is_word_def ascii_lower_def

lemmas text_eval = u_simps ulit_simps lit_def case_variant_def

lemma ulit_append: "ulit (s @ t) = ulit s @ ulit t"
  by (simp add: ulit_def)

lemma ascii_lower_idem: "ascii_lower (ascii_lower c) = ascii_lower c"
  by (simp add: ascii_lower_def)

lemma lit_accepts_variant:
  assumes "ascii_lower x = ascii_lower y"
  shows "lit_accepts U True c x = lit_accepts U True c y"
proof (cases "x = y")
  case True
  then show ?thesis by simp
next
  case False
  with assms have xy: "x < 128" "y < 128" "tolower U x = tolower U y"
    "(65 \<le> x \<and> x \<le> 90) \<or> (97 \<le> x \<and> x \<le> 122)" "(65 \<le> y \<and> y \<le> 90) \<or> (97 \<le> y \<and> y \<le> 122)"
    by (auto simp: ascii_lower_def tolower_def split: if_splits)
  show ?thesis
  proof (cases "iscased U c")
    case True
    with xy(3) show ?thesis by (simp add: lit_accepts_def)
  next
    case False
    then have "x \<noteq> c" "y \<noteq> c" using xy by (auto simp: iscased_def split: if_splits)
    with False show ?thesis by (simp add: lit_accepts_def)
  qed
qed

lemma accepts_variant:
  "ascii_lower x = ascii_lower y \<Longrightarrow> accepts U True a x = accepts U True a y"
proof (cases a)
  case (Lit c)
  assume "ascii_lower x = ascii_lower y"
  then show ?thesis using Lit by (simp add: lit_accepts_variant [of x y])
next
  case Dot
  assume "ascii_lower x = ascii_lower y"
  then show ?thesis using Dot by (auto simp: ascii_lower_def split: if_splits)
next
  case Word
  assume "ascii_lower x = ascii_lower y"
  then show ?thesis using Word by (auto simp: ascii_lower_def is_word_def split: if_splits)
next
  case (Set cs)
  assume "ascii_lower x = ascii_lower y"
  then show ?thesis using Set by (simp add: lit_accepts_variant [of x y])
qed

lemma accepts_lower: "accepts U True a (ascii_lower x) = accepts U True a x"
  by (rule accepts_variant) (simp add: ascii_lower_idem)

lemma match_here_lower:
  "match_here U True p (map ascii_lower s) = map_option (map ascii_lower) (match_here U True p s)"
  by (induction U "True" p s rule: match_here.induct)
     (simp_all add: accepts_lower split: option.splits)

lemma re_search_lower: "re_search U True p (map ascii_lower s) = re_search U True p s"
proof (induction s)
  case Nil
  show ?case using match_here_lower [of U p "[]"] by simp
next
  case (Cons c cs)
  have "(match_here U True p (map ascii_lower (c # cs)) \<noteq> None) = (match_here U True p (c # cs) \<noteq> None)"
    by (simp only: match_here_lower) simp
  with Cons show ?case by (simp del: match_here.simps)
qed

lemma first_match_lower: "first_match U ps (map ascii_lower w) = first_match U ps w"
  by (induction ps) (simp_all add: re_search_lower)

lemma first_match_least:
  "i < length ps \<Longrightarrow> re_search U True (snd (ps ! i)) w \<Longrightarrow>
   \<forall>q \<in> set (take i ps). \<not> re_search U True (snd q) w \<Longrightarrow>
   first_match U ps w = (True, Some (fst (ps ! i)))"
proof (induction ps arbitrary: i)
  case Nil
  then show ?case by simp
next
  case (Cons q qs)
  show ?case
  proof (cases i)
    case 0
    with Cons.prems show ?thesis by simp
  next
    case (Suc k)
    with Cons.prems have "\<not> re_search U True (snd q) w" by simp
    moreover from Suc Cons.prems have "first_match U qs w = (True, Some (fst (qs ! k)))"
      by (intro Cons.IH) simp_all
    ultimately show ?thesis using Suc by simp
  qed
qed

lemma first_match_hit:
  "q \<in> set ps \<Longrightarrow> re_search U True (snd q) w \<Longrightarrow> fst (first_match U ps w)"
  by (induction ps) auto

lemma lit_accepts_ascii:
  assumes "c < 128" "ascii_lower x = ascii_lower c"
  shows "lit_accepts U True c x"
proof -
  have "lit_accepts U True c c"
    by (simp add: lit_accepts_def)
  with lit_accepts_variant [OF assms(2), of U c] show ?thesis by simp
qed

lemma match_here_variant:
  "list_all (\<lambda>c. c < 128) t \<Longrightarrow> case_variant v t \<Longrightarrow>
   match_here U True (ulit t @ r) (v @ rest) = match_here U True r rest"
proof (induction t arbitrary: v)
  case Nil
  then show ?case by (simp add: case_variant_def ulit_simps)
next
  case (Cons c t)
  from Cons.prems(2) obtain x xs where v: "v = x # xs" "ascii_lower x = ascii_lower c" "case_variant xs t"
    by (cases v) (auto simp: case_variant_def)
  from Cons.prems(1) have "c < 128" "list_all (\<lambda>c. c < 128) t" by simp_all
  with v Cons.IH [of xs] show ?case
    by (simp add: ulit_simps lit_accepts_ascii)
qed

lemma re_search_at:
  "match_here U ic p s \<noteq> None \<Longrightarrow> re_search U ic p (pre @ s)"
proof (induction pre)
  case Nil
  then show ?case by (cases s) simp_all
next
  case (Cons a pre)
  then show ?case by simp
qed

lemma star_dot_through:
  "10 \<notin> set mid \<Longrightarrow> match_here U ic r rest \<noteq> None \<Longrightarrow>
   match_here U ic (Star Dot # r) (mid @ rest) \<noteq> None"
proof (induction mid)
  case Nil
  then show ?case by (cases rest) (auto split: option.splits)
next
  case (Cons m mid)
  then show ?case by (auto split: option.splits)
qed

lemma error_patterns_ascii:
  "list_all (\<lambda>q. list_all (\<lambda>c. c < 128) (u (fst q))) error_patterns"
  by (simp add: error_patterns_def u_simps)

lemma error_patterns_literal:
  "i < length error_patterns \<Longrightarrow> i \<noteq> 1 \<Longrightarrow>
   snd (error_patterns ! i) = ulit (u (fst (error_patterns ! i)))"
proof -
  have "list_all (\<lambda>i. snd (error_patterns ! i) = ulit (u (fst (error_patterns ! i)))) [0, 2, 3, 4, 5, 6, 7]"
    by (simp add: error_patterns_def lit_def)
  moreover assume "i < length error_patterns" "i \<noteq> 1"
  then have "i \<in> set [0, 2, 3, 4, 5, 6, 7]"
    by (auto simp: error_patterns_def)
  ultimately show ?thesis unfolding list_all_iff by blast
qed

section \<open>The fatal scan\<close>

text \<open>
  Claim C2. Whatever the tables of Unicode are: the scan reports the first pattern of
  \<open>error_patterns\<close> that is found in the window, so when the pattern at index \<open>i\<close> is
  found and none listed before it is, the result is that pattern, whatever later
  patterns are found too and wherever in the window the occurrences are. The scan does
  not see case: a window that holds a pattern's text in any mix of upper and lower case
  (for the pattern with \<^verbatim>\<open>.*\<close>, its two texts with anything but a line feed between
  them) is fatal, and two windows that differ only in the case of ASCII letters get the
  same result.
\<close>

theorem fatal_scan_first_listed:
  "(i < length error_patterns \<and> re_search U True (snd (error_patterns ! i)) w \<and>
    (\<forall>q \<in> set (take i error_patterns). \<not> re_search U True (snd q) w)
      \<longrightarrow> check_for_errors U w = (True, Some (fst (error_patterns ! i)))) \<and>
   (i < length error_patterns \<and> i \<noteq> 1 \<and> case_variant v (u (fst (error_patterns ! i)))
      \<longrightarrow> re_search U True (snd (error_patterns ! i)) (pre @ v @ post) \<and>
          fst (check_for_errors U (pre @ v @ post))) \<and>
   (case_variant va (u ''Cannot connect to'') \<and> case_variant vb (u ''database'') \<and> 10 \<notin> set mid
      \<longrightarrow> re_search U True (snd (error_patterns ! 1)) (pre @ va @ mid @ vb @ post) \<and>
          fst (check_for_errors U (pre @ va @ mid @ vb @ post))) \<and>
   (map ascii_lower w' = map ascii_lower w \<longrightarrow> check_for_errors U w' = check_for_errors U w)"
proof (intro conjI impI)
  assume "i < length error_patterns \<and> re_search U True (snd (error_patterns ! i)) w \<and>
    (\<forall>q \<in> set (take i error_patterns). \<not> re_search U True (snd q) w)"
  then show "check_for_errors U w = (True, Some (fst (error_patterns ! i)))"
    unfolding check_for_errors_def by (intro first_match_least) simp_all
next
  assume h: "i < length error_patterns \<and> i \<noteq> 1 \<and> case_variant v (u (fst (error_patterns ! i)))"
  then have p: "snd (error_patterns ! i) = ulit (u (fst (error_patterns ! i)))"
    by (simp add: error_patterns_literal)
  from h error_patterns_ascii have a: "list_all (\<lambda>c. c < 128) (u (fst (error_patterns ! i)))"
    by (simp add: list_all_length)
  from h have "match_here U True (ulit (u (fst (error_patterns ! i))) @ []) (v @ post)
                 = match_here U True [] post"
    by (intro match_here_variant [OF a]) simp
  then have "match_here U True (snd (error_patterns ! i)) (v @ post) \<noteq> None"
    by (simp add: p)
  then show r: "re_search U True (snd (error_patterns ! i)) (pre @ v @ post)"
    by (rule re_search_at)
  from h have "error_patterns ! i \<in> set error_patterns" by simp
  from first_match_hit [OF this r] show "fst (check_for_errors U (pre @ v @ post))"
    by (simp add: check_for_errors_def)
next
  assume h: "case_variant va (u ''Cannot connect to'') \<and> case_variant vb (u ''database'') \<and> 10 \<notin> set mid"
  have p: "snd (error_patterns ! 1) = ulit (u ''Cannot connect to'') @ Star Dot # ulit (u ''database'')"
    by (simp add: error_patterns_def lit_def)
  have a: "list_all (\<lambda>c. c < 128) (u ''Cannot connect to'')" "list_all (\<lambda>c. c < 128) (u ''database'')"
    by (simp_all add: u_simps)
  from h have "match_here U True (ulit (u ''database'') @ []) (vb @ post) = match_here U True [] post"
    by (intro match_here_variant [OF a(2)]) simp
  then have "match_here U True (ulit (u ''database'')) (vb @ post) \<noteq> None"
    by simp
  with h have "match_here U True (Star Dot # ulit (u ''database'')) (mid @ vb @ post) \<noteq> None"
    by (intro star_dot_through) simp_all
  moreover from h
  have "match_here U True (ulit (u ''Cannot connect to'') @ Star Dot # ulit (u ''database''))
          (va @ mid @ vb @ post)
        = match_here U True (Star Dot # ulit (u ''database'')) (mid @ vb @ post)"
    by (intro match_here_variant [OF a(1)]) simp
  ultimately have "match_here U True (snd (error_patterns ! 1)) (va @ mid @ vb @ post) \<noteq> None"
    by (simp only: p) simp
  then show r: "re_search U True (snd (error_patterns ! 1)) (pre @ va @ mid @ vb @ post)"
    by (rule re_search_at)
  have "error_patterns ! 1 \<in> set error_patterns" by (simp add: error_patterns_def)
  from first_match_hit [OF this r] show "fst (check_for_errors U (pre @ va @ mid @ vb @ post))"
    by (simp add: check_for_errors_def)
next
  assume "map ascii_lower w' = map ascii_lower w"
  then have "first_match U error_patterns (map ascii_lower w')
               = first_match U error_patterns (map ascii_lower w)"
    by simp
  then show "check_for_errors U w' = check_for_errors U w"
    by (simp add: check_for_errors_def first_match_lower)
qed

theorem fatal_scan_first_listed_witness:
  "(6::nat) < length error_patterns \<and>
   re_search small_table True (snd (error_patterns ! 6)) (u ''sigkill '' @ [383] @ u ''igTerm'') \<and>
   re_search small_table True (snd (error_patterns ! 7)) (u ''sigkill '' @ [383] @ u ''igTerm'') \<and>
   list_all (\<lambda>q. \<not> re_search small_table True (snd q) (u ''sigkill '' @ [383] @ u ''igTerm''))
     (take 6 error_patterns) \<and>
   check_for_errors small_table (u ''sigkill '' @ [383] @ u ''igTerm'') = (True, Some ''SIGTERM'') \<and>
   case_variant (u ''econnrefused'') (u (fst (error_patterns ! 0))) \<and>
   check_for_errors small_table (u ''at 10:00 '' @ u ''econnrefused'' @ u '' again'')
     = (True, Some ''ECONNREFUSED'') \<and>
   case_variant (u ''cannot CONNECT to'') (u ''Cannot connect to'') \<and>
   case_variant (u ''DataBase'') (u ''database'') \<and>
   10 \<notin> set (u '' the '') \<and>
   fst (check_for_errors small_table ([] @ u ''cannot CONNECT to'' @ u '' the '' @ u ''DataBase'' @ [])) \<and>
   map ascii_lower (u ''SIGKILL'') = map ascii_lower (u ''sigkill'') \<and>
   check_for_errors small_table (u ''SIGKILL'') = check_for_errors small_table (u ''sigkill'')"
proof -
  let ?w = "u ''sigkill '' @ [383] @ u ''igTerm''"
  have h1: "(6::nat) < length error_patterns" "(0::nat) < length error_patterns"
    by (simp_all add: error_patterns_def)
  have h2: "re_search small_table True (snd (error_patterns ! 6)) ?w"
    by (simp add: error_patterns_def text_eval char_eval small_table_def)
  have h3: "re_search small_table True (snd (error_patterns ! 7)) ?w"
    by (simp add: error_patterns_def text_eval char_eval small_table_def)
  have h4: "list_all (\<lambda>q. \<not> re_search small_table True (snd q) ?w) (take 6 error_patterns)"
    by (simp add: error_patterns_def text_eval char_eval small_table_def)
  have h6: "fst (error_patterns ! 6) = ''SIGTERM''" "fst (error_patterns ! 0) = ''ECONNREFUSED''"
    by (simp_all add: error_patterns_def)
  have v: "case_variant (u ''econnrefused'') (u (fst (error_patterns ! 0)))"
    "case_variant (u ''cannot CONNECT to'') (u ''Cannot connect to'')"
    "case_variant (u ''DataBase'') (u ''database'')"
    "10 \<notin> set (u '' the '')"
    "map ascii_lower (u ''SIGKILL'') = map ascii_lower (u ''sigkill'')"
    by (simp_all add: error_patterns_def text_eval char_eval)
  from h4 have h4': "\<forall>q \<in> set (take 6 error_patterns). \<not> re_search small_table True (snd q) ?w"
    by (simp only: list_all_iff)
  from fatal_scan_first_listed [of 6 small_table ?w] h1(1) h2 h4'
  have "check_for_errors small_table ?w = (True, Some (fst (error_patterns ! 6)))"
    by blast
  then have a: "check_for_errors small_table ?w = (True, Some ''SIGTERM'')"
    by (simp only: h6)
  from fatal_scan_first_listed [of 0 small_table "u ''at 10:00 '' @ u ''econnrefused'' @ u '' again''"
      "u ''econnrefused''" "u ''at 10:00 ''" "u '' again''"] h1(2) v(1)
  have b0: "re_search small_table True (snd (error_patterns ! 0))
              (u ''at 10:00 '' @ u ''econnrefused'' @ u '' again'')"
    by simp
  have t0: "\<forall>q \<in> set (take 0 error_patterns). \<not> re_search small_table True (snd q)
              (u ''at 10:00 '' @ u ''econnrefused'' @ u '' again'')"
    by simp
  from fatal_scan_first_listed [of 0 small_table "u ''at 10:00 '' @ u ''econnrefused'' @ u '' again''"]
    h1(2) b0 t0
  have "check_for_errors small_table (u ''at 10:00 '' @ u ''econnrefused'' @ u '' again'')
             = (True, Some (fst (error_patterns ! 0)))"
    by blast
  then have b: "check_for_errors small_table (u ''at 10:00 '' @ u ''econnrefused'' @ u '' again'')
             = (True, Some ''ECONNREFUSED'')"
    by (simp only: h6)
  from fatal_scan_first_listed [of 0 small_table "[]" "[]" "[]" "[]"
      "u ''cannot CONNECT to''" "u ''DataBase''" "u '' the ''"] v(2,3,4)
  have c: "fst (check_for_errors small_table
             ([] @ u ''cannot CONNECT to'' @ u '' the '' @ u ''DataBase'' @ []))"
    by blast
  from fatal_scan_first_listed [of 0 small_table "u ''sigkill''" "[]" "[]" "[]" "[]" "[]" "[]"
      "u ''SIGKILL''"] v(5)
  have d: "check_for_errors small_table (u ''SIGKILL'') = check_for_errors small_table (u ''sigkill'')"
    by blast
  from h1(1) h2 h3 h4 a v b c d show ?thesis by (simp only: simp_thms)
qed

end
